theory Spec2Isabelle
  imports Complex_Main
begin

section \<open>Go values\<close>

text \<open>
  A Go call either returns or panics (a nil pointer dereference, a failed type
  assertion). A value of Go's \<^verbatim>\<open>error\<close> interface is \<open>None\<close> for nil and
  \<open>Some e\<close> otherwise; \<open>errorString\<close> is what \<^verbatim>\<open>errors.New\<close> and
  \<^verbatim>\<open>fmt.Errorf\<close> build, \<open>libError\<close> is an error handed back by a collaborator
  (os, io/ioutil, yaml, strconv, expr).
\<close>

datatype 'a go = Panics | Ret 'a

datatype error = errorString string | libError string

fun Error :: "error \<Rightarrow> string" where
  "Error (errorString m) = m"
| "Error (libError m) = m"

text \<open>
  A float64 with the cases Go's comparison and formatting tell apart. \<open>Fin r\<close> is a
  finite value given by the real number it denotes, so every finite double is some
  \<open>Fin r\<close>; \<open>NegZero\<close> is the negative zero, equal to \<open>Fin 0\<close> in comparisons.
\<close>

datatype float64 = NaN | PosInf | NegInf | NegZero | Fin real

fun f64_rank :: "float64 \<Rightarrow> (int \<times> real) option" where
  "f64_rank NaN = None"
| "f64_rank NegInf = Some (-1, 0)"
| "f64_rank NegZero = Some (0, 0)"
| "f64_rank (Fin r) = Some (0, r)"
| "f64_rank PosInf = Some (1, 0)"

definition f64_lt :: "float64 \<Rightarrow> float64 \<Rightarrow> bool" where
  "f64_lt a b =
     (case (f64_rank a, f64_rank b) of
        (Some (i, x), Some (j, y)) \<Rightarrow> i < j \<or> (i = j \<and> x < y)
      | _ \<Rightarrow> False)"

definition f64_ge :: "float64 \<Rightarrow> float64 \<Rightarrow> bool" where
  "f64_ge a b =
     (case (f64_rank a, f64_rank b) of
        (Some (i, x), Some (j, y)) \<Rightarrow> j < i \<or> (i = j \<and> y \<le> x)
      | _ \<Rightarrow> False)"

text \<open>
  The value of an \<^verbatim>\<open>interface{}\<close>, as far as a type assertion can tell.
\<close>

datatype any = AnyNil | AnyBool bool | AnyInt int | AnyFloat float64 | AnyString string

section \<open>Standard library functions the configuration code calls\<close>

text \<open>\<^verbatim>\<open>strings.Count(s, sep)\<close> for a one-byte separator: the occurrences of the byte.\<close>

fun strings_Count :: "string \<Rightarrow> char \<Rightarrow> nat" where
  "strings_Count [] c = 0"
| "strings_Count (x # xs) c = (if x = c then 1 else 0) + strings_Count xs c"



section \<open>The configuration tree\<close>

record ConfigCoverageBadge =
  CoverageBadge_Path :: string

record ConfigCoverage =
  Coverage_Path :: string
  Coverage_Badge :: ConfigCoverageBadge
  Coverage_Acceptable :: string

record ConfigCodeToTestRatioBadge =
  CodeToTestRatioBadge_Path :: string

text \<open>A slice is \<open>None\<close> when nil.\<close>

record ConfigCodeToTestRatio =
  Ratio_Code :: "string list option"
  Ratio_Test :: "string list option"
  Ratio_Badge :: ConfigCodeToTestRatioBadge

record ConfigDatastoreGithub =
  Github_Repository :: string
  Github_Branch :: string
  Github_Path :: string

record ConfigDatastore =
  Datastore_If :: string
  Datastore_Github :: "ConfigDatastoreGithub option"

record ConfigCentral =
  Central_Enable :: bool
  Central_Reports :: string
  Central_Badges :: string
  Central_Root :: string

text \<open>A pointer field is \<open>None\<close> when nil. \<open>wd\<close> and \<open>path\<close> are the unexported fields.\<close>

record Config =
  Repository :: string
  Coverage :: "ConfigCoverage option"
  CodeToTestRatio :: "ConfigCodeToTestRatio option"
  Datastore :: "ConfigDatastore option"
  Central :: "ConfigCentral option"
  wd :: string
  path :: string

definition defaultBranch :: string where
  "defaultBranch = ''main''"

definition defaultReportsDir :: string where
  "defaultReportsDir = ''reports''"

definition green :: string where "green = ''#97CA00''"
definition yellowgreen :: string where "yellowgreen = ''#A4A61D''"
definition yellow :: string where "yellow = ''#DFB317''"
definition orange :: string where "orange = ''#FE7D37''"
definition red :: string where "red = ''#E05D44''"

definition DefaultConfigFilePaths :: "string list" where
  "DefaultConfigFilePaths = [''.octocov.yml'', ''octocov.yml'']"

definition New :: "string \<Rightarrow> Config" where
  "New w =
     \<lparr>Repository = [], Coverage = Some \<lparr>Coverage_Path = [],
        Coverage_Badge = \<lparr>CoverageBadge_Path = []\<rparr>, Coverage_Acceptable = []\<rparr>,
      CodeToTestRatio = None, Datastore = None, Central = None, wd = w, path = []\<rparr>"

definition Loaded :: "Config \<Rightarrow> bool" where
  "Loaded c = (path c \<noteq> [])"

section \<open>BuildDatastoreConfig\<close>

text \<open>The message ends in a single quote, written here as the byte 0x27.\<close>

definition errOwnerRepo :: string where
  "errOwnerRepo = ''datastore.github.repository should be 'owner/repo'' @ [CHR 0x27]"

text \<open>
  The method writes the defaults into the github section before it checks the
  repository, so the configuration it leaves behind is part of the result, also when
  it returns an error. A nil \<open>Datastore\<close> is dereferenced: the call panics.
\<close>

definition BuildDatastoreConfig :: "Config \<Rightarrow> (error option \<times> Config) go" where
  "BuildDatastoreConfig c =
     (case Datastore c of
        None \<Rightarrow> Panics
      | Some d \<Rightarrow>
          (case Datastore_Github d of
             None \<Rightarrow> Ret (Some (errorString ''datastore.github not set''), c)
           | Some g \<Rightarrow>
               (let g1 = (if Github_Branch g = [] then g\<lparr>Github_Branch := defaultBranch\<rparr> else g);
                    g2 = (if Github_Path g1 = [] \<and> Repository c \<noteq> []
                          then g1\<lparr>Github_Path :=
                                 defaultReportsDir @ ''/'' @ Repository c @ ''/report.json''\<rparr>
                          else g1);
                    c' = c\<lparr>Datastore := Some (d\<lparr>Datastore_Github := Some g2\<rparr>)\<rparr>
                in if Github_Repository g2 = []
                   then Ret (Some (errorString ''datastore.github.repository not set''), c')
                   else if strings_Count (Github_Repository g2) CHR ''/'' \<noteq> 1
                   then Ret (Some (errorString errOwnerRepo), c')
                   else if Github_Branch g2 = []
                   then Ret (Some (errorString ''datastore.github.branch not set''), c')
                   else if Github_Path g2 = []
                   then Ret (Some (errorString ''datastore.github.path not set''), c')
                   else Ret (None, c'))))"

section \<open>Environment expansion and Build\<close>

text \<open>
  The process environment is a snapshot: a map from names to values.
  \<^verbatim>\<open>os.Getenv\<close> gives the empty string for a name that is not set.
\<close>

definition Getenv :: "(string \<rightharpoonup> string) \<Rightarrow> string \<Rightarrow> string" where
  "Getenv env k = (case env k of None \<Rightarrow> [] | Some v \<Rightarrow> v)"

text \<open>
  \<^verbatim>\<open>os.Expand\<close> of Go's standard library, which \<^verbatim>\<open>os.ExpandEnv\<close> calls with
  \<^verbatim>\<open>os.Getenv\<close>: a \<^verbatim>\<open>$\<close> followed by at least one more byte starts a reference;
  \<open>getShellName\<close> reads the name after it and says how many bytes it used. The value
  of the variable is inserted as it is and is not expanded again.
\<close>

definition isShellSpecialVar :: "char \<Rightarrow> bool" where
  "isShellSpecialVar c = (c \<in> set ''*#$@!?-0123456789'')"

definition isAlphaNum :: "char \<Rightarrow> bool" where
  "isAlphaNum c =
     (c \<in> set ''_0123456789abcdefghijklmnopqrstuvwxyzABCDEFGHIJKLMNOPQRSTUVWXYZ'')"

text \<open>\<open>getShellName\<close> is only called on a non-empty string.\<close>

definition getShellName :: "string \<Rightarrow> string \<times> nat" where
  "getShellName s =
     (case s of
        [] \<Rightarrow> ([], 0)
      | c # t \<Rightarrow>
          if c = CHR ''{'' then
            (if length s > 2 \<and> isShellSpecialVar (s ! 1) \<and> s ! 2 = CHR ''}''
             then ([s ! 1], 3)
             else (let name = takeWhile (\<lambda>x. x \<noteq> CHR ''}'') t
                   in if length name = length t then ([], 1)
                      else if name = [] then ([], 2)
                      else (name, length name + 2)))
          else if isShellSpecialVar c then ([c], 1)
          else (let name = takeWhile isAlphaNum s in (name, length name)))"

fun Expand :: "string \<Rightarrow> (string \<Rightarrow> string) \<Rightarrow> string" where
  "Expand [] mapping = []"
| "Expand (c # t) mapping =
     (if c = CHR ''$'' \<and> t \<noteq> []
      then (let nw = getShellName t
            in (if fst nw = [] \<and> snd nw > 0 then []
                else if fst nw = [] then [c]
                else mapping (fst nw)) @ Expand (drop (snd nw) t) mapping)
      else c # Expand t mapping)"

definition ExpandEnv :: "(string \<rightharpoonup> string) \<Rightarrow> string \<Rightarrow> string" where
  "ExpandEnv env s = Expand s (Getenv env)"

text \<open>
  Build checks every pointer before it follows it, so it always returns; the
  configuration it leaves behind is its result. Its five blocks, in the order of
  the source: the repository with its fallback, the github section of the
  datastore, the coverage badge, the slices of the code to test ratio, and the
  central section.
\<close>

definition Build_Repository :: "(string \<rightharpoonup> string) \<Rightarrow> Config \<Rightarrow> Config" where
  "Build_Repository env c =
     (let c1 = c\<lparr>Repository := ExpandEnv env (Repository c)\<rparr>
      in if Repository c1 = [] then c1\<lparr>Repository := Getenv env ''GITHUB_REPOSITORY''\<rparr>
         else c1)"

definition Build_Datastore :: "(string \<rightharpoonup> string) \<Rightarrow> Config \<Rightarrow> Config" where
  "Build_Datastore env c =
     (case Datastore c of
        None \<Rightarrow> c
      | Some d \<Rightarrow>
          (case Datastore_Github d of
             None \<Rightarrow> c
           | Some g \<Rightarrow>
               c\<lparr>Datastore := Some (d\<lparr>Datastore_Github := Some
                    (g\<lparr>Github_Repository := ExpandEnv env (Github_Repository g),
                       Github_Branch := ExpandEnv env (Github_Branch g),
                       Github_Path := ExpandEnv env (Github_Path g)\<rparr>)\<rparr>)\<rparr>))"

definition Build_Coverage :: "(string \<rightharpoonup> string) \<Rightarrow> Config \<Rightarrow> Config" where
  "Build_Coverage env c =
     (case Coverage c of
        None \<Rightarrow> c
      | Some cov \<Rightarrow>
          c\<lparr>Coverage := Some (cov\<lparr>Coverage_Badge :=
               (Coverage_Badge cov)\<lparr>CoverageBadge_Path :=
                  ExpandEnv env (CoverageBadge_Path (Coverage_Badge cov))\<rparr>\<rparr>)\<rparr>)"

definition Build_CodeToTestRatio :: "Config \<Rightarrow> Config" where
  "Build_CodeToTestRatio c =
     (case CodeToTestRatio c of
        None \<Rightarrow> c
      | Some ct \<Rightarrow>
          c\<lparr>CodeToTestRatio := Some (ct\<lparr>
               Ratio_Code := Some (case Ratio_Code ct of None \<Rightarrow> [] | Some xs \<Rightarrow> xs),
               Ratio_Test := Some (case Ratio_Test ct of None \<Rightarrow> [] | Some xs \<Rightarrow> xs)\<rparr>)\<rparr>)"

definition Build_Central :: "(string \<rightharpoonup> string) \<Rightarrow> Config \<Rightarrow> Config" where
  "Build_Central env c =
     (case Central c of
        None \<Rightarrow> c
      | Some ce \<Rightarrow>
          c\<lparr>Central := Some (ce\<lparr>Central_Root := ExpandEnv env (Central_Root ce),
               Central_Reports := ExpandEnv env (Central_Reports ce),
               Central_Badges := ExpandEnv env (Central_Badges ce)\<rparr>)\<rparr>)"

definition Build :: "(string \<rightharpoonup> string) \<Rightarrow> Config \<Rightarrow> Config" where
  "Build env c =
     Build_Central env (Build_CodeToTestRatio (Build_Coverage env
       (Build_Datastore env (Build_Repository env c))))"

section \<open>Load\<close>

text \<open>
  What Load asks of its collaborators: \<^verbatim>\<open>os.Stat\<close> (of the answer only
  \<^verbatim>\<open>IsDir\<close> is read), \<^verbatim>\<open>ioutil.ReadFile\<close>, \<^verbatim>\<open>filepath.Join\<close> of two
  elements, \<^verbatim>\<open>filepath.Clean\<close>, \<^verbatim>\<open>filepath.Dir\<close> and \<^verbatim>\<open>yaml.Unmarshal\<close>
  into the configuration.
\<close>

record FileInfo =
  IsDir :: bool

record sys =
  Stat :: "string \<Rightarrow> error + FileInfo"
  ReadFile :: "string \<Rightarrow> error + string"
  Join :: "string \<Rightarrow> string \<Rightarrow> string"
  Clean :: "string \<Rightarrow> string"
  Dir :: "string \<Rightarrow> string"
  Unmarshal :: "string \<Rightarrow> Config \<Rightarrow> error option \<times> Config"

text \<open>
  The test of the loop, \<^verbatim>\<open>err == nil && !f.IsDir()\<close>, on the answer of
  \<^verbatim>\<open>os.Stat\<close>.
\<close>

definition is_file :: "sys \<Rightarrow> string \<Rightarrow> bool" where
  "is_file s p = (case Stat s p of Inl err \<Rightarrow> False | Inr f \<Rightarrow> \<not> IsDir f)"

text \<open>
  The loop over the candidate names, with the name found so far; \<open>Inl\<close> is the
  early return with the duplicate error.
\<close>

fun Load_candidates :: "sys \<Rightarrow> string \<Rightarrow> string list \<Rightarrow> string \<Rightarrow> error + string" where
  "Load_candidates s w [] found = Inr found"
| "Load_candidates s w (p # ps) found =
     (if is_file s (Join s w p)
      then (if found \<noteq> []
            then Inl (errorString (''duplicate config file ['' @ found @ '', '' @ p @ '']''))
            else Load_candidates s w ps p)
      else Load_candidates s w ps found)"

text \<open>
  The decoder fills the exported fields only: \<open>wd\<close> and \<open>path\<close> are unexported, so
  the configuration after \<^verbatim>\<open>yaml.Unmarshal\<close> has them as before.
\<close>

definition Load :: "sys \<Rightarrow> Config \<Rightarrow> string \<Rightarrow> (error option \<times> Config) go" where
  "Load s c p0 =
     (case (if p0 = [] then Load_candidates s (wd c) DefaultConfigFilePaths p0 else Inr p0) of
        Inl err \<Rightarrow> Ret (Some err, c)
      | Inr p \<Rightarrow>
          if p = [] then
            (case Coverage c of
               None \<Rightarrow> Panics
             | Some cov \<Rightarrow> Ret (None, c\<lparr>Coverage := Some (cov\<lparr>Coverage_Path := wd c\<rparr>)\<rparr>))
          else
            (let c1 = c\<lparr>path := Join s (wd c) p\<rparr>
             in case ReadFile s (Clean s (path c1)) of
                  Inl err \<Rightarrow> Ret (Some err, c1)
                | Inr buf \<Rightarrow>
                    (let res = Unmarshal s buf c1;
                         c2 = (snd res)\<lparr>wd := wd c1, path := path c1\<rparr>
                     in case fst res of
                          Some err \<Rightarrow> Ret (Some err, c2)
                        | None \<Rightarrow>
                            (case Coverage c2 of
                               None \<Rightarrow> Panics
                             | Some cov \<Rightarrow>
                                 if Coverage_Path cov = []
                                 then Ret (None, c2\<lparr>Coverage :=
                                        Some (cov\<lparr>Coverage_Path := Dir s (path c2)\<rparr>)\<rparr>)
                                 else Ret (None, c2)))))"

section \<open>DatastoreConfigReady\<close>

text \<open>
  The event the decoder hands back (a pointer, \<open>None\<close> when nil; the decoder's error
  is dropped), the instant \<^verbatim>\<open>time.Now()\<close> read in UTC, and the variables given to
  the expression evaluator. The payload is any structured value.
\<close>

record 'p GitHubEvent =
  Event_Name :: string
  Event_Payload :: 'p

record Time =
  UTC_Year :: int
  UTC_Month :: int
  UTC_Day :: int
  UTC_Hour :: int
  UTC_Weekday :: int

record 'p Variables =
  var_year :: int
  var_month :: int
  var_day :: int
  var_hour :: int
  var_weekday :: int
  var_github_event_name :: string
  var_github_event :: 'p
  var_env :: "string \<rightharpoonup> string"

text \<open>
  \<open>Eval\<close> is \<^verbatim>\<open>expr.Eval\<close>: it returns a value of any type and an error. The
  result of the call is the decision and what was written to the error stream;
  the type assertion \<^verbatim>\<open>doOrNot.(bool)\<close> panics on a value that is not a bool.
\<close>

definition variables :: "'p GitHubEvent \<Rightarrow> Time \<Rightarrow> (string \<rightharpoonup> string) \<Rightarrow> 'p Variables" where
  "variables ev now env =
     \<lparr>var_year = UTC_Year now, var_month = UTC_Month now, var_day = UTC_Day now,
      var_hour = UTC_Hour now, var_weekday = UTC_Weekday now,
      var_github_event_name = Event_Name ev, var_github_event = Event_Payload ev,
      var_env = env\<rparr>"

definition skipMessage :: "string \<Rightarrow> string" where
  "skipMessage cond =
     ''Skip storing the report: the condition in the `if` section is not met ('' @ cond @ '')''
       @ [CHR 0x0A]"

definition DatastoreConfigReady ::
  "(string \<Rightarrow> 'p Variables \<Rightarrow> any \<times> error option) \<Rightarrow> 'p GitHubEvent option \<Rightarrow> Time \<Rightarrow>
   (string \<rightharpoonup> string) \<Rightarrow> Config \<Rightarrow> (bool \<times> string list) go" where
  "DatastoreConfigReady Eval e now env c =
     (case Datastore c of
        None \<Rightarrow> Ret (False, [])
      | Some d \<Rightarrow>
          if Datastore_If d = [] then Ret (True, [])
          else
            (let cond = Datastore_If d
             in case e of
                  None \<Rightarrow> Panics
                | Some ev \<Rightarrow>
                    (let res = Eval (''('' @ cond @ '') == true'') (variables ev now env)
                     in case snd res of
                          Some err \<Rightarrow> Ret (False, [Error err @ [CHR 0x0A]])
                        | None \<Rightarrow>
                            (case fst res of
                               AnyBool doOrNot \<Rightarrow>
                                 if \<not> doOrNot
                                 then Ret (False, [skipMessage cond])
                                 else Ret (True, [])
                             | _ \<Rightarrow> Panics))))"

section \<open>Accepptable\<close>








section \<open>Color bands\<close>

text \<open>
  The constants \<^verbatim>\<open>1.2\<close>, \<^verbatim>\<open>0.8\<close> and \<^verbatim>\<open>0.6\<close> are not binary fractions: as
  float64 they are the nearest doubles, written here as the fractions they denote.
  \<^verbatim>\<open>80.0\<close>, \<^verbatim>\<open>60.0\<close>, \<^verbatim>\<open>40.0\<close>, \<^verbatim>\<open>20.0\<close> and \<^verbatim>\<open>1.0\<close> are exact.
\<close>

definition f64_1_2 :: float64 where
  "f64_1_2 = Fin (5404319552844595 / 2 ^ 52)"

definition f64_0_8 :: float64 where
  "f64_0_8 = Fin (7205759403792794 / 2 ^ 53)"

definition f64_0_6 :: float64 where
  "f64_0_6 = Fin (5404319552844595 / 2 ^ 53)"

definition CoverageColor :: "Config \<Rightarrow> float64 \<Rightarrow> string" where
  "CoverageColor c cover =
     (if f64_ge cover (Fin 80) then green
      else if f64_ge cover (Fin 60) then yellowgreen
      else if f64_ge cover (Fin 40) then yellow
      else if f64_ge cover (Fin 20) then orange
      else red)"

definition CodeToTestRatioColor :: "Config \<Rightarrow> float64 \<Rightarrow> string" where
  "CodeToTestRatioColor c ratio =
     (if f64_ge ratio f64_1_2 then green
      else if f64_ge ratio (Fin 1) then yellowgreen
      else if f64_ge ratio f64_0_8 then yellow
      else if f64_ge ratio f64_0_6 then orange
      else red)"

section \<open>Sample inputs\<close>

text \<open>
  Concrete configurations, environments and collaborators at which the theorems
  below are evaluated.
\<close>

definition cfg_github :: "string \<Rightarrow> string \<Rightarrow> string \<Rightarrow> string \<Rightarrow> Config" where
  "cfg_github rt repo branch p =
     (New ''/w'')\<lparr>Repository := rt,
        Datastore := Some \<lparr>Datastore_If = [], Datastore_Github =
          Some \<lparr>Github_Repository = repo, Github_Branch = branch, Github_Path = p\<rparr>\<rparr>\<rparr>"

definition cfg_if :: "string \<Rightarrow> Config" where
  "cfg_if cond =
     (New ''/w'')\<lparr>Datastore := Some \<lparr>Datastore_If = cond, Datastore_Github = None\<rparr>\<rparr>"

definition event0 :: "unit GitHubEvent" where
  "event0 = \<lparr>Event_Name = ''push'', Event_Payload = ()\<rparr>"

definition time0 :: Time where
  "time0 = \<lparr>UTC_Year = 2021, UTC_Month = 3, UTC_Day = 14, UTC_Hour = 15, UTC_Weekday = 0\<rparr>"

text \<open>
  An evaluator for the inputs of the examples. On the first input it answers as
  the releases of the expression library that run an expression without checking
  its types do (v1.8): the conditional operator binds weaker than \<^verbatim>\<open>==\<close>, so the
  comparison with \<^verbatim>\<open>true\<close> belongs to the else branch and the value of the whole
  expression is the integer of the then branch. On any input it does not know it
  reports an error; the text of that error stands for the library's own message.
\<close>

definition Eval_sample :: "string \<Rightarrow> unit Variables \<Rightarrow> any \<times> error option" where
  "Eval_sample input vars =
     (if input = ''(true) ? 1 : (2) == true'' then (AnyInt 1, None)
      else if input = ''(1 == 2) == true'' then (AnyBool False, None)
      else if input = ''(year == 2021) == true'' then (AnyBool (var_year vars = 2021), None)
      else (AnyNil, Some (libError ''syntax error'')))"



text \<open>
  A file system given by a list of paths, each a directory or a file with its
  content, with paths joined by a slash and already clean, and a decoder that
  reads one document.
\<close>

definition Dir_sample :: "string \<Rightarrow> string" where
  "Dir_sample p = butlast (rev (dropWhile (\<lambda>x. x \<noteq> CHR ''/'') (rev p)))"

definition Unmarshal_sample :: "string \<Rightarrow> Config \<Rightarrow> error option \<times> Config" where
  "Unmarshal_sample buf c =
     (if buf = ''repository: acme/widgets'' then (None, c\<lparr>Repository := ''acme/widgets''\<rparr>)
      else (Some (libError ''yaml: unexpected document''), c))"

definition sys_sample :: "(string \<times> bool \<times> string) list \<Rightarrow> sys" where
  "sys_sample files =
     \<lparr>Stat = (\<lambda>p. case map_of files p of
                 None \<Rightarrow> Inl (libError (''stat '' @ p @ '': no such file or directory''))
               | Some (d, content) \<Rightarrow> Inr \<lparr>IsDir = d\<rparr>),
      ReadFile = (\<lambda>p. case map_of files p of
                 None \<Rightarrow> Inl (libError (''open '' @ p @ '': no such file or directory''))
               | Some (d, content) \<Rightarrow>
                   if d then Inl (libError (''read '' @ p @ '': is a directory''))
                   else Inr content),
      Join = (\<lambda>a b. a @ ''/'' @ b),
      Clean = (\<lambda>p. p),
      Dir = Dir_sample,
      Unmarshal = Unmarshal_sample\<rparr>"

text \<open>
  Two environments: one in which the value of \<^verbatim>\<open>A\<close> is itself a reference, and
  one as a CI runner sets it, with no \<^verbatim>\<open>$\<close> in any value.
\<close>

definition env_nested :: "string \<rightharpoonup> string" where
  "env_nested = [''A'' \<mapsto> ''$B'', ''B'' \<mapsto> ''x'']"

definition env_ci :: "string \<rightharpoonup> string" where
  "env_ci = [''GITHUB_REPOSITORY'' \<mapsto> ''acme/widgets'', ''HOME'' \<mapsto> ''/home/ci'']"

definition cfg_build :: Config where
  "cfg_build =
     (New ''/w'')\<lparr>
        Coverage := Some \<lparr>Coverage_Path = [],
          Coverage_Badge = \<lparr>CoverageBadge_Path = ''${HOME}/coverage.svg''\<rparr>,
          Coverage_Acceptable = []\<rparr>,
        CodeToTestRatio := Some \<lparr>Ratio_Code = None, Ratio_Test = Some [''**/*_test.go''],
          Ratio_Badge = \<lparr>CodeToTestRatioBadge_Path = []\<rparr>\<rparr>,
        Datastore := Some \<lparr>Datastore_If = [], Datastore_Github =
          Some \<lparr>Github_Repository = ''$GITHUB_REPOSITORY'', Github_Branch = [],
                Github_Path = ''$HOME/$UNSET/r.json''\<rparr>\<rparr>\<rparr>"

section \<open>The datastore condition\<close>

text \<open>
  C2. A configuration with a datastore section whose \<^verbatim>\<open>if\<close> is empty is ready:
  DatastoreConfigReady returns true and writes nothing to the error stream, whatever
  the evaluator, the event, the clock and the environment are.
\<close>

theorem DatastoreConfigReady_empty_if:
  assumes "Datastore c = Some d" and "Datastore_If d = []"
  shows "DatastoreConfigReady Eval e now env c = Ret (True, [])"
  using assms by (simp add: DatastoreConfigReady_def)

theorem DatastoreConfigReady_empty_if_witness:
  "DatastoreConfigReady Eval_sample None time0 Map.empty (cfg_if []) = Ret (True, [])"
  using DatastoreConfigReady_empty_if [of "cfg_if []" _ Eval_sample None time0 Map.empty]
  by (simp add: cfg_if_def)

text \<open>
  C1 says that the condition is evaluated to a decision for every expression and
  never panics. The code wraps the condition into \<^verbatim>\<open>(<if>) == true\<close> so that the
  evaluator's value is a bool, and asserts that type without a check. The condition
  \<^verbatim>\<open>true) ? 1 : (2\<close> closes the parenthesis of the wrapper: the expression
  evaluated is \<^verbatim>\<open>(true) ? 1 : (2) == true\<close>, the evaluator returns the integer 1
  without an error, and DatastoreConfigReady panics.
\<close>

theorem DatastoreConfigReady_panics_on_non_bool:
  "DatastoreConfigReady Eval_sample (Some event0) time0 Map.empty
     (cfg_if ''true) ? 1 : (2'') = Panics"
  by (simp add: DatastoreConfigReady_def cfg_if_def Eval_sample_def New_def)

text \<open>
  What the code does keep of the soft failure. With a non-empty \<^verbatim>\<open>if\<close> and a
  decoded event that is not nil: when the evaluator reports an error,
  DatastoreConfigReady writes the error and a newline to the error stream and
  returns false, and the error goes no further; when the evaluator returns a bool,
  that bool is the decision, and a false one writes the skip message. The only
  panic left is the one of the type assertion, on a value that is not a bool.
\<close>

lemma DatastoreConfigReady_soft_fail:
  assumes "Datastore c = Some d" and "Datastore_If d \<noteq> []" and "e = Some ev"
    and "res = Eval (''('' @ Datastore_If d @ '') == true'') (variables ev now env)"
  shows "(snd res = Some err \<longrightarrow>
            DatastoreConfigReady Eval e now env c = Ret (False, [Error err @ [CHR 0x0A]])) \<and>
         (res = (AnyBool b, None) \<longrightarrow>
            DatastoreConfigReady Eval e now env c =
              Ret (b, if b then [] else [skipMessage (Datastore_If d)])) \<and>
         (DatastoreConfigReady Eval e now env c = Panics \<longleftrightarrow>
            snd res = None \<and> (\<forall>x. fst res \<noteq> AnyBool x))"
proof (intro conjI impI)
  assume "snd res = Some err"
  with assms show "DatastoreConfigReady Eval e now env c = Ret (False, [Error err @ [CHR 0x0A]])"
    by (simp add: DatastoreConfigReady_def Let_def)
next
  assume "res = (AnyBool b, None)"
  with assms(4) have "Eval (''('' @ Datastore_If d @ '') == true'') (variables ev now env) =
      (AnyBool b, None)"
    by simp
  with assms(1-3) show "DatastoreConfigReady Eval e now env c =
      Ret (b, if b then [] else [skipMessage (Datastore_If d)])"
    by (simp add: DatastoreConfigReady_def Let_def)
next
  from assms show "DatastoreConfigReady Eval e now env c = Panics \<longleftrightarrow>
      snd res = None \<and> (\<forall>x. fst res \<noteq> AnyBool x)"
    by (cases "snd res"; cases "fst res")
       (auto simp: DatastoreConfigReady_def Let_def)
qed

lemma DatastoreConfigReady_soft_fail_witness:
  "DatastoreConfigReady Eval_sample (Some event0) time0 Map.empty (cfg_if ''year >'') =
     Ret (False, [''syntax error'' @ [CHR 0x0A]]) \<and>
   DatastoreConfigReady Eval_sample (Some event0) time0 Map.empty (cfg_if ''1 == 2'') =
     Ret (False, [skipMessage ''1 == 2'']) \<and>
   DatastoreConfigReady Eval_sample (Some event0) time0 Map.empty (cfg_if ''year == 2021'') =
     Ret (True, [])"
  using DatastoreConfigReady_soft_fail [of "cfg_if ''year >''" _ "Some event0" event0 _
          Eval_sample time0 Map.empty "libError ''syntax error''"]
        DatastoreConfigReady_soft_fail [of "cfg_if ''1 == 2''" _ "Some event0" event0 _
          Eval_sample time0 Map.empty _ False]
        DatastoreConfigReady_soft_fail [of "cfg_if ''year == 2021''" _ "Some event0" event0 _
          Eval_sample time0 Map.empty _ True]
  by (simp add: cfg_if_def Eval_sample_def variables_def time0_def)

section \<open>Validation of the datastore target\<close>

lemma BuildDatastoreConfig_config:
  assumes "Datastore c = Some d" and "Datastore_Github d = Some g"
  shows "map_go snd (BuildDatastoreConfig c) =
         Ret (c\<lparr>Datastore := Some (d\<lparr>Datastore_Github := Some (g\<lparr>
            Github_Branch := (if Github_Branch g = [] then ''main'' else Github_Branch g),
            Github_Path := (if Github_Path g = [] \<and> Repository c \<noteq> []
                            then ''reports/'' @ Repository c @ ''/report.json''
                            else Github_Path g)\<rparr>)\<rparr>)\<rparr>)"
  using assms
  by (simp add: BuildDatastoreConfig_def Let_def defaultBranch_def defaultReportsDir_def)

lemma BuildDatastoreConfig_error:
  assumes "Datastore c = Some d" and "Datastore_Github d = Some g"
  shows "map_go fst (BuildDatastoreConfig c) =
         Ret (if Github_Repository g = []
              then Some (errorString ''datastore.github.repository not set'')
              else if strings_Count (Github_Repository g) CHR ''/'' \<noteq> 1
              then Some (errorString errOwnerRepo)
              else if Github_Path g = [] \<and> Repository c = []
              then Some (errorString ''datastore.github.path not set'')
              else None)"
  using assms
  by (simp add: BuildDatastoreConfig_def Let_def defaultBranch_def defaultReportsDir_def)

lemma go_fst_snd:
  assumes "map_go fst r = Ret a" and "map_go snd r = Ret b"
  shows "r = Ret (a, b)"
  using assms by (cases r) auto

text \<open>
  C3. BuildDatastoreConfig, on a configuration with a datastore section, checks in
  this order and returns the error of the first check that fails: a nil github
  section gives \<^verbatim>\<open>datastore.github not set\<close> (and the configuration is untouched);
  an empty github.repository gives \<^verbatim>\<open>datastore.github.repository not set\<close>; a
  non-empty github.repository whose number of \<^verbatim>\<open>/\<close> is not one gives the
  \<^verbatim>\<open>should be 'owner/repo'\<close> error.
\<close>

theorem BuildDatastoreConfig_priority:
  assumes "Datastore c = Some d"
  shows "(Datastore_Github d = None \<longrightarrow>
            BuildDatastoreConfig c = Ret (Some (errorString ''datastore.github not set''), c)) \<and>
         (Datastore_Github d = Some g \<and> Github_Repository g = [] \<longrightarrow>
            map_go fst (BuildDatastoreConfig c) =
              Ret (Some (errorString ''datastore.github.repository not set''))) \<and>
         (Datastore_Github d = Some g \<and> Github_Repository g \<noteq> [] \<and>
          strings_Count (Github_Repository g) CHR ''/'' \<noteq> 1 \<longrightarrow>
            map_go fst (BuildDatastoreConfig c) = Ret (Some (errorString errOwnerRepo)))"
  using assms BuildDatastoreConfig_error [of c d g]
  by (auto simp: BuildDatastoreConfig_def)

theorem BuildDatastoreConfig_priority_witness:
  "map_go fst (BuildDatastoreConfig (cfg_github ''acme/widgets'' ''ownerrepo'' [] [])) =
     Ret (Some (errorString errOwnerRepo)) \<and>
   map_go fst (BuildDatastoreConfig (cfg_github ''acme/widgets'' ''a/b/c'' [] [])) =
     Ret (Some (errorString errOwnerRepo)) \<and>
   map_go fst (BuildDatastoreConfig (cfg_github ''acme/widgets'' [] [] [])) =
     Ret (Some (errorString ''datastore.github.repository not set'')) \<and>
   BuildDatastoreConfig (cfg_if []) =
     Ret (Some (errorString ''datastore.github not set''), cfg_if [])"
  using BuildDatastoreConfig_priority [of "cfg_github ''acme/widgets'' ''ownerrepo'' [] []" _
          "\<lparr>Github_Repository = ''ownerrepo'', Github_Branch = [], Github_Path = []\<rparr>"]
        BuildDatastoreConfig_priority [of "cfg_github ''acme/widgets'' ''a/b/c'' [] []" _
          "\<lparr>Github_Repository = ''a/b/c'', Github_Branch = [], Github_Path = []\<rparr>"]
        BuildDatastoreConfig_priority [of "cfg_github ''acme/widgets'' [] [] []" _
          "\<lparr>Github_Repository = [], Github_Branch = [], Github_Path = []\<rparr>"]
        BuildDatastoreConfig_priority [of "cfg_if []"]
  by (simp add: cfg_github_def cfg_if_def New_def)

text \<open>
  C4, as stated, fails: with an empty root repository, an empty github.path and an
  empty github.repository, the error is the one of the repository check, which
  comes before the path check.
\<close>

theorem BuildDatastoreConfig_empty_path_other_error:
  "Repository (cfg_github [] [] [] []) = [] \<and>
   map_go fst (BuildDatastoreConfig (cfg_github [] [] [] [])) =
     Ret (Some (errorString ''datastore.github.repository not set'')) \<and>
   map_go fst (BuildDatastoreConfig (cfg_github [] [] [] [])) \<noteq>
     Ret (Some (errorString ''datastore.github.path not set''))"
  by (simp add: BuildDatastoreConfig_def cfg_github_def New_def Let_def defaultBranch_def)

text \<open>
  C4, amended. With a github section, BuildDatastoreConfig leaves a configuration
  in which an empty github.branch has become \<^verbatim>\<open>main\<close> and an empty github.path has
  become \<^verbatim>\<open>reports/<repository>/report.json\<close>, built from the root repository,
  when the root repository is not empty; nothing else changes. With an empty root
  repository an empty path stays empty and the call returns an error: the path
  \<^verbatim>\<open>not set\<close> error when github.repository has exactly one \<^verbatim>\<open>/\<close>, the error of
  the repository check otherwise.
\<close>

theorem BuildDatastoreConfig_defaults:
  assumes "Datastore c = Some d" and "Datastore_Github d = Some g"
  shows "map_go snd (BuildDatastoreConfig c) =
           Ret (c\<lparr>Datastore := Some (d\<lparr>Datastore_Github := Some (g\<lparr>
              Github_Branch := (if Github_Branch g = [] then ''main'' else Github_Branch g),
              Github_Path := (if Github_Path g = [] \<and> Repository c \<noteq> []
                              then ''reports/'' @ Repository c @ ''/report.json''
                              else Github_Path g)\<rparr>)\<rparr>)\<rparr>) \<and>
         (Github_Path g = [] \<and> Repository c = [] \<longrightarrow>
            map_go fst (BuildDatastoreConfig c) \<noteq> Ret None \<and>
            (strings_Count (Github_Repository g) CHR ''/'' = 1 \<longrightarrow>
               map_go fst (BuildDatastoreConfig c) =
                 Ret (Some (errorString ''datastore.github.path not set''))))"
proof (intro conjI impI)
  show "map_go snd (BuildDatastoreConfig c) =
           Ret (c\<lparr>Datastore := Some (d\<lparr>Datastore_Github := Some (g\<lparr>
              Github_Branch := (if Github_Branch g = [] then ''main'' else Github_Branch g),
              Github_Path := (if Github_Path g = [] \<and> Repository c \<noteq> []
                              then ''reports/'' @ Repository c @ ''/report.json''
                              else Github_Path g)\<rparr>)\<rparr>)\<rparr>)"
    by (rule BuildDatastoreConfig_config [OF assms])
next
  assume "Github_Path g = [] \<and> Repository c = []"
  then show "map_go fst (BuildDatastoreConfig c) \<noteq> Ret None"
    by (simp add: BuildDatastoreConfig_error [OF assms])
next
  assume "Github_Path g = [] \<and> Repository c = []"
    and one: "strings_Count (Github_Repository g) CHR ''/'' = 1"
  moreover from one have "Github_Repository g \<noteq> []" by auto
  ultimately show "map_go fst (BuildDatastoreConfig c) =
      Ret (Some (errorString ''datastore.github.path not set''))"
    by (simp add: BuildDatastoreConfig_error [OF assms])
qed

theorem BuildDatastoreConfig_defaults_witness:
  "BuildDatastoreConfig (cfg_github ''acme/widgets'' ''o/r'' [] []) =
     Ret (None, cfg_github ''acme/widgets'' ''o/r'' ''main'' ''reports/acme/widgets/report.json'') \<and>
   BuildDatastoreConfig (cfg_github [] ''o/r'' [] []) =
     Ret (Some (errorString ''datastore.github.path not set''), cfg_github [] ''o/r'' ''main'' [])"
proof -
  let ?g = "\<lparr>Github_Repository = ''o/r'', Github_Branch = [], Github_Path = []\<rparr>"
  note a = BuildDatastoreConfig_defaults [of "cfg_github ''acme/widgets'' ''o/r'' [] []" _ ?g]
  note b = BuildDatastoreConfig_defaults [of "cfg_github [] ''o/r'' [] []" _ ?g]
  have a_err: "map_go fst (BuildDatastoreConfig (cfg_github ''acme/widgets'' ''o/r'' [] [])) = Ret None"
    by (simp add: BuildDatastoreConfig_def cfg_github_def New_def Let_def defaultBranch_def
        defaultReportsDir_def)
  have a_cfg: "map_go snd (BuildDatastoreConfig (cfg_github ''acme/widgets'' ''o/r'' [] [])) =
      Ret (cfg_github ''acme/widgets'' ''o/r'' ''main'' ''reports/acme/widgets/report.json'')"
    using a by (simp add: cfg_github_def New_def)
  have b_both: "map_go fst (BuildDatastoreConfig (cfg_github [] ''o/r'' [] [])) =
        Ret (Some (errorString ''datastore.github.path not set'')) \<and>
      map_go snd (BuildDatastoreConfig (cfg_github [] ''o/r'' [] [])) =
        Ret (cfg_github [] ''o/r'' ''main'' [])"
    using b by (simp add: cfg_github_def New_def)
  have b_res: "BuildDatastoreConfig (cfg_github [] ''o/r'' [] []) =
      Ret (Some (errorString ''datastore.github.path not set''), cfg_github [] ''o/r'' ''main'' [])"
    using b_both by (intro go_fst_snd) simp_all
  show ?thesis
    using go_fst_snd [OF a_err a_cfg] b_res by (intro conjI)
qed

text \<open>
  C10. When BuildDatastoreConfig returns an error because github.repository is
  empty or does not have exactly one \<^verbatim>\<open>/\<close>, the configuration it leaves behind
  already carries the defaults: the branch \<^verbatim>\<open>main\<close> where it was empty, and the
  derived path where the path was empty and the root repository is not. So the
  configuration differs from the one the call started with whenever a default applied.
\<close>

theorem BuildDatastoreConfig_not_atomic:
  assumes "Datastore c = Some d" and "Datastore_Github d = Some g"
    and "strings_Count (Github_Repository g) CHR ''/'' \<noteq> 1"
    and "c' = c\<lparr>Datastore := Some (d\<lparr>Datastore_Github := Some (g\<lparr>
              Github_Branch := (if Github_Branch g = [] then ''main'' else Github_Branch g),
              Github_Path := (if Github_Path g = [] \<and> Repository c \<noteq> []
                              then ''reports/'' @ Repository c @ ''/report.json''
                              else Github_Path g)\<rparr>)\<rparr>)\<rparr>"
  shows "BuildDatastoreConfig c =
           Ret (Some (errorString (if Github_Repository g = []
                                   then ''datastore.github.repository not set''
                                   else errOwnerRepo)), c') \<and>
         (Github_Branch g = [] \<or> (Github_Path g = [] \<and> Repository c \<noteq> []) \<longleftrightarrow> c' \<noteq> c)"
proof
  have "map_go fst (BuildDatastoreConfig c) =
      Ret (Some (errorString (if Github_Repository g = []
                              then ''datastore.github.repository not set'' else errOwnerRepo)))"
    using assms(3) by (simp add: BuildDatastoreConfig_error [OF assms(1,2)])
  moreover have "map_go snd (BuildDatastoreConfig c) = Ret c'"
    unfolding assms(4) by (rule BuildDatastoreConfig_config [OF assms(1,2)])
  ultimately show "BuildDatastoreConfig c =
      Ret (Some (errorString (if Github_Repository g = []
                              then ''datastore.github.repository not set''
                              else errOwnerRepo)), c')"
    by (rule go_fst_snd)
next
  let ?g = "g\<lparr>Github_Branch := (if Github_Branch g = [] then ''main'' else Github_Branch g),
              Github_Path := (if Github_Path g = [] \<and> Repository c \<noteq> []
                              then ''reports/'' @ Repository c @ ''/report.json''
                              else Github_Path g)\<rparr>"
  have "c' = c \<longleftrightarrow> Datastore c' = Datastore c"
    unfolding assms(4) by (cases c) simp
  also have "\<dots> \<longleftrightarrow> d\<lparr>Datastore_Github := Some ?g\<rparr> = d"
    unfolding assms(4) using assms(1) by simp
  also have "\<dots> \<longleftrightarrow> ?g = g"
    using assms(2) by (cases d) auto
  also have "\<dots> \<longleftrightarrow> \<not> (Github_Branch g = [] \<or> (Github_Path g = [] \<and> Repository c \<noteq> []))"
    by (cases g) auto
  finally show "Github_Branch g = [] \<or> (Github_Path g = [] \<and> Repository c \<noteq> []) \<longleftrightarrow> c' \<noteq> c"
    by blast
qed

theorem BuildDatastoreConfig_not_atomic_witness:
  "BuildDatastoreConfig (cfg_github ''acme/widgets'' ''a/b/c'' [] []) =
     Ret (Some (errorString errOwnerRepo),
          cfg_github ''acme/widgets'' ''a/b/c'' ''main'' ''reports/acme/widgets/report.json'') \<and>
   cfg_github ''acme/widgets'' ''a/b/c'' ''main'' ''reports/acme/widgets/report.json'' \<noteq>
     cfg_github ''acme/widgets'' ''a/b/c'' [] []"
  using BuildDatastoreConfig_not_atomic [of "cfg_github ''acme/widgets'' ''a/b/c'' [] []" _
          "\<lparr>Github_Repository = ''a/b/c'', Github_Branch = [], Github_Path = []\<rparr>"]
  by (simp add: cfg_github_def New_def)

section \<open>Color bands\<close>

lemma f64_ge_Fin [simp]: "f64_ge (Fin x) (Fin y) \<longleftrightarrow> y \<le> x"
  by (simp add: f64_ge_def)

lemma f64_lt_Fin [simp]: "f64_lt (Fin x) (Fin y) \<longleftrightarrow> x < y"
  by (simp add: f64_lt_def)


text \<open>
  The three ratio thresholds are the doubles nearest to 1.2, 0.8 and 0.6: each is a
  53-bit integer over a power of two and lies within half a unit in the last place
  of the decimal constant.
\<close>

lemma ratio_thresholds_nearest:
  "\<bar>5404319552844595 / 2 ^ 52 - 12 / 10\<bar> < (1 / 2 ^ 53 :: real)"
  "\<bar>7205759403792794 / 2 ^ 53 - 8 / 10\<bar> < (1 / 2 ^ 54 :: real)"
  "\<bar>5404319552844595 / 2 ^ 53 - 6 / 10\<bar> < (1 / 2 ^ 54 :: real)"
  "(2 ^ 52 :: nat) \<le> 5404319552844595 \<and> (5404319552844595 :: nat) < 2 ^ 53"
  "(2 ^ 52 :: nat) \<le> 7205759403792794 \<and> (7205759403792794 :: nat) < 2 ^ 53"
  by simp_all

text \<open>
  C5. CoverageColor and CodeToTestRatioColor are functions of the number alone (the
  receiver is not read). On a finite value each picks the band of the highest lower
  bound the value reaches, bounds included: 80, 60, 40, 20 for percentages and the
  float64 constants 1.2, 1.0, 0.8, 0.6 for ratios, red below the last. Each bound
  itself is in the higher band. NaN compares false with every bound and is red,
  plus infinity is green, minus infinity and negative zero are red. The five colors
  are distinct.
\<close>

theorem color_bands:
  "CoverageColor c (Fin r) =
     (if 80 \<le> r then green else if 60 \<le> r then yellowgreen
      else if 40 \<le> r then yellow else if 20 \<le> r then orange else red) \<and>
   CodeToTestRatioColor c (Fin r) =
     (if 5404319552844595 / 2 ^ 52 \<le> r then green else if 1 \<le> r then yellowgreen
      else if 7205759403792794 / 2 ^ 53 \<le> r then yellow
      else if 5404319552844595 / 2 ^ 53 \<le> r then orange else red) \<and>
   CoverageColor c (Fin 80) = green \<and> CoverageColor c (Fin 60) = yellowgreen \<and>
   CoverageColor c (Fin 40) = yellow \<and> CoverageColor c (Fin 20) = orange \<and>
   CodeToTestRatioColor c f64_1_2 = green \<and> CodeToTestRatioColor c (Fin 1) = yellowgreen \<and>
   CodeToTestRatioColor c f64_0_8 = yellow \<and> CodeToTestRatioColor c f64_0_6 = orange \<and>
   CoverageColor c NaN = red \<and> CodeToTestRatioColor c NaN = red \<and>
   CoverageColor c PosInf = green \<and> CodeToTestRatioColor c PosInf = green \<and>
   CoverageColor c NegInf = red \<and> CodeToTestRatioColor c NegInf = red \<and>
   CoverageColor c NegZero = red \<and> CodeToTestRatioColor c NegZero = red \<and>
   CoverageColor c x = CoverageColor c' x \<and>
   CodeToTestRatioColor c x = CodeToTestRatioColor c' x \<and>
   distinct [green, yellowgreen, yellow, orange, red]"
proof -
  have fin: "CoverageColor c (Fin r) =
     (if 80 \<le> r then green else if 60 \<le> r then yellowgreen
      else if 40 \<le> r then yellow else if 20 \<le> r then orange else red)"
    by (simp add: CoverageColor_def)
  have ratio: "CodeToTestRatioColor c (Fin r) =
     (if 5404319552844595 / 2 ^ 52 \<le> r then green else if 1 \<le> r then yellowgreen
      else if 7205759403792794 / 2 ^ 53 \<le> r then yellow
      else if 5404319552844595 / 2 ^ 53 \<le> r then orange else red)"
    by (simp add: CodeToTestRatioColor_def f64_1_2_def f64_0_8_def f64_0_6_def)
  have bounds: "CoverageColor c (Fin 80) = green" "CoverageColor c (Fin 60) = yellowgreen"
      "CoverageColor c (Fin 40) = yellow" "CoverageColor c (Fin 20) = orange"
    by (simp_all add: CoverageColor_def)
  have rbounds: "CodeToTestRatioColor c f64_1_2 = green"
      "CodeToTestRatioColor c (Fin 1) = yellowgreen"
      "CodeToTestRatioColor c f64_0_8 = yellow" "CodeToTestRatioColor c f64_0_6 = orange"
    by (simp_all add: CodeToTestRatioColor_def f64_1_2_def f64_0_8_def f64_0_6_def)
  have special: "CoverageColor c NaN = red" "CodeToTestRatioColor c NaN = red"
      "CoverageColor c PosInf = green" "CodeToTestRatioColor c PosInf = green"
      "CoverageColor c NegInf = red" "CodeToTestRatioColor c NegInf = red"
      "CoverageColor c NegZero = red" "CodeToTestRatioColor c NegZero = red"
    by (simp_all add: CoverageColor_def CodeToTestRatioColor_def f64_ge_def
        f64_1_2_def f64_0_8_def f64_0_6_def)
  have pure: "CoverageColor c x = CoverageColor c' x"
      "CodeToTestRatioColor c x = CodeToTestRatioColor c' x"
    by (simp_all add: CoverageColor_def CodeToTestRatioColor_def)
  have colors: "distinct [green, yellowgreen, yellow, orange, red]"
    by (simp add: green_def yellowgreen_def yellow_def orange_def red_def)
  from fin ratio bounds rbounds special pure colors show ?thesis
    by (intro conjI)
qed

section \<open>The acceptance check\<close>














section \<open>Loading the configuration file\<close>

lemma Load_candidates_default:
  "Load_candidates s w DefaultConfigFilePaths [] =
     (if is_file s (Join s w ''.octocov.yml'') \<and> is_file s (Join s w ''octocov.yml'')
      then Inl (errorString ''duplicate config file [.octocov.yml, octocov.yml]'')
      else if is_file s (Join s w ''.octocov.yml'') then Inr ''.octocov.yml''
      else if is_file s (Join s w ''octocov.yml'') then Inr ''octocov.yml''
      else Inr [])"
  by (simp add: DefaultConfigFilePaths_def)

text \<open>
  The loop on any list of non-empty names: the answer depends on the names that are
  files only, and the error names the first two of them.
\<close>

lemma Load_candidates_filter:
  assumes "[] \<notin> set ps"
  shows "Load_candidates s w ps found =
     (case filter (\<lambda>p. is_file s (Join s w p)) ps of
        [] \<Rightarrow> Inr found
      | p # rest \<Rightarrow>
          if found \<noteq> []
          then Inl (errorString (''duplicate config file ['' @ found @ '', '' @ p @ '']''))
          else (case rest of
                  [] \<Rightarrow> Inr p
                | q # _ \<Rightarrow>
                    Inl (errorString (''duplicate config file ['' @ p @ '', '' @ q @ '']''))))"
  using assms
proof (induction ps arbitrary: found)
  case Nil
  show ?case by simp
next
  case (Cons p ps)
  then have p: "p \<noteq> []" and ps: "[] \<notin> set ps" by auto
  show ?case
  proof (cases "is_file s (Join s w p)")
    case True
    with p Cons.IH [OF ps, of p] show ?thesis
      by (simp split: list.splits)
  next
    case False
    with Cons.IH [OF ps, of found] show ?thesis by simp
  qed
qed

text \<open>
  C7. With no explicit path, when both candidate names \<^verbatim>\<open>.octocov.yml\<close> and
  \<^verbatim>\<open>octocov.yml\<close> are files under the working directory (the stat succeeds and
  is not a directory), Load returns the error
  \<^verbatim>\<open>duplicate config file [.octocov.yml, octocov.yml]\<close>, which names both, and
  leaves the configuration as it was; no file is read.
\<close>

theorem Load_duplicate:
  assumes "is_file s (Join s (wd c) ''.octocov.yml'')"
    and "is_file s (Join s (wd c) ''octocov.yml'')"
  shows "Load s c [] =
           Ret (Some (errorString ''duplicate config file [.octocov.yml, octocov.yml]''), c)"
  using assms by (simp add: Load_def Load_candidates_default)

theorem Load_duplicate_witness:
  "Load (sys_sample [(''/w/.octocov.yml'', False, ''repository: acme/widgets''),
                     (''/w/octocov.yml'', False, ''repository: acme/widgets'')]) (New ''/w'') [] =
     Ret (Some (errorString ''duplicate config file [.octocov.yml, octocov.yml]''), New ''/w'')"
  using Load_duplicate [of
          "sys_sample [(''/w/.octocov.yml'', False, ''repository: acme/widgets''),
                       (''/w/octocov.yml'', False, ''repository: acme/widgets'')]" "New ''/w''"]
  by (simp add: sys_sample_def is_file_def New_def)

text \<open>
  C8. Two rules give the coverage path its default. With no explicit path and no
  candidate that is a file, Load on a configuration that has loaded no file returns
  nil, \<open>Loaded\<close> stays false and coverage.path is the working directory. When a
  file is resolved (the explicit path, or the one candidate found), read and decoded
  without error, and coverage.path is empty after decoding, coverage.path becomes
  the directory of the resolved file, \<^verbatim>\<open>filepath.Dir(filepath.Join(wd, path))\<close>.
\<close>

theorem Load_coverage_path:
  "(\<not> is_file s (Join s (wd c) ''.octocov.yml'') \<and>
    \<not> is_file s (Join s (wd c) ''octocov.yml'') \<and>
    Coverage c = Some cov \<and> path c = [] \<longrightarrow>
      Load s c [] = Ret (None, c\<lparr>Coverage := Some (cov\<lparr>Coverage_Path := wd c\<rparr>)\<rparr>) \<and>
      \<not> Loaded (c\<lparr>Coverage := Some (cov\<lparr>Coverage_Path := wd c\<rparr>)\<rparr>)) \<and>
   ((if p0 = [] then Load_candidates s (wd c) DefaultConfigFilePaths [] else Inr p0) = Inr p \<and>
    p \<noteq> [] \<and>
    ReadFile s (Clean s (Join s (wd c) p)) = Inr buf \<and>
    Unmarshal s buf (c\<lparr>path := Join s (wd c) p\<rparr>) = (None, c2) \<and>
    Coverage c2 = Some cov2 \<and> Coverage_Path cov2 = [] \<longrightarrow>
      Load s c p0 =
        Ret (None, c2\<lparr>wd := wd c, path := Join s (wd c) p,
                      Coverage := Some (cov2\<lparr>Coverage_Path := Dir s (Join s (wd c) p)\<rparr>)\<rparr>))"
proof (intro conjI impI)
  assume a: "\<not> is_file s (Join s (wd c) ''.octocov.yml'') \<and>
    \<not> is_file s (Join s (wd c) ''octocov.yml'') \<and> Coverage c = Some cov \<and> path c = []"
  then show "Load s c [] = Ret (None, c\<lparr>Coverage := Some (cov\<lparr>Coverage_Path := wd c\<rparr>)\<rparr>)"
    by (simp add: Load_def Load_candidates_default)
  from a show "\<not> Loaded (c\<lparr>Coverage := Some (cov\<lparr>Coverage_Path := wd c\<rparr>)\<rparr>)"
    by (simp add: Loaded_def)
next
  assume b: "(if p0 = [] then Load_candidates s (wd c) DefaultConfigFilePaths [] else Inr p0) = Inr p \<and>
    p \<noteq> [] \<and>
    ReadFile s (Clean s (Join s (wd c) p)) = Inr buf \<and>
    Unmarshal s buf (c\<lparr>path := Join s (wd c) p\<rparr>) = (None, c2) \<and>
    Coverage c2 = Some cov2 \<and> Coverage_Path cov2 = []"
  then have "(if p0 = [] then Load_candidates s (wd c) DefaultConfigFilePaths p0 else Inr p0) = Inr p"
    by (cases "p0 = []") simp_all
  with b show "Load s c p0 =
        Ret (None, c2\<lparr>wd := wd c, path := Join s (wd c) p,
                      Coverage := Some (cov2\<lparr>Coverage_Path := Dir s (Join s (wd c) p)\<rparr>)\<rparr>)"
    by (simp add: Load_def Let_def)
qed

theorem Load_coverage_path_witness:
  "Load (sys_sample []) (New ''/w'') [] =
     Ret (None, (New ''/w'')\<lparr>Coverage := Some \<lparr>Coverage_Path = ''/w'',
        Coverage_Badge = \<lparr>CoverageBadge_Path = []\<rparr>, Coverage_Acceptable = []\<rparr>\<rparr>) \<and>
   Load (sys_sample [(''/w/sub/conf.yml'', False, ''repository: acme/widgets'')])
       (New ''/w'') ''sub/conf.yml'' =
     Ret (None, (New ''/w'')\<lparr>Repository := ''acme/widgets'', path := ''/w/sub/conf.yml'',
        Coverage := Some \<lparr>Coverage_Path = ''/w/sub'',
          Coverage_Badge = \<lparr>CoverageBadge_Path = []\<rparr>, Coverage_Acceptable = []\<rparr>\<rparr>) \<and>
   Load (sys_sample [(''/w/octocov.yml'', False, ''repository: acme/widgets'')])
       (New ''/w'') [] =
     Ret (None, (New ''/w'')\<lparr>Repository := ''acme/widgets'', path := ''/w/octocov.yml'',
        Coverage := Some \<lparr>Coverage_Path = ''/w'',
          Coverage_Badge = \<lparr>CoverageBadge_Path = []\<rparr>, Coverage_Acceptable = []\<rparr>\<rparr>)"
proof -
  let ?cov = "\<lparr>Coverage_Path = [], Coverage_Badge = \<lparr>CoverageBadge_Path = []\<rparr>,
     Coverage_Acceptable = []\<rparr>"
  let ?doc = "''repository: acme/widgets''"
  show ?thesis
    using Load_coverage_path [where s = "sys_sample []" and c = "New ''/w''" and cov = ?cov
            and ?p0.0 = "''x''" and p = "[]" and buf = "[]" and ?c2.0 = "New ''/w''"
            and ?cov2.0 = ?cov]
          Load_coverage_path [where s = "sys_sample [(''/w/sub/conf.yml'', False, ?doc)]"
            and c = "New ''/w''" and cov = ?cov and ?p0.0 = "''sub/conf.yml''"
            and p = "''sub/conf.yml''" and buf = ?doc
            and ?c2.0 = "(New ''/w'')\<lparr>Repository := ''acme/widgets'', path := ''/w/sub/conf.yml''\<rparr>"
            and ?cov2.0 = ?cov]
          Load_coverage_path [where s = "sys_sample [(''/w/octocov.yml'', False, ?doc)]"
            and c = "New ''/w''" and cov = ?cov and ?p0.0 = "[]"
            and p = "''octocov.yml''" and buf = ?doc
            and ?c2.0 = "(New ''/w'')\<lparr>Repository := ''acme/widgets'', path := ''/w/octocov.yml''\<rparr>"
            and ?cov2.0 = ?cov]
    by (simp add: sys_sample_def is_file_def New_def Unmarshal_sample_def Dir_sample_def
        DefaultConfigFilePaths_def)
qed

section \<open>Build\<close>

lemma Expand_no_dollar_prefix:
  "CHR ''$'' \<notin> set a \<Longrightarrow> Expand (a @ b) m = a @ Expand b m"
  by (induction a) auto

lemma Expand_no_dollar: "CHR ''$'' \<notin> set a \<Longrightarrow> Expand a m = a"
  using Expand_no_dollar_prefix [of a "[]" m] by simp

lemma getShellName_no_name:
  assumes "x \<noteq> CHR ''{''" and "\<not> isShellSpecialVar x" and "\<not> isAlphaNum x"
  shows "getShellName (x # xs) = ([], 0)"
  using assms by (simp add: getShellName_def)

lemma getShellName_no_name_iff:
  assumes "getShellName t = ([], 0)" and "t \<noteq> []"
  shows "hd t \<noteq> CHR ''{'' \<and> \<not> isShellSpecialVar (hd t) \<and> \<not> isAlphaNum (hd t)"
proof (cases t)
  case Nil
  with assms show ?thesis by simp
next
  case (Cons x xs)
  with assms(1) show ?thesis
    by (auto simp: getShellName_def Let_def split: if_splits)
qed

lemma dollar_special: "isShellSpecialVar CHR ''$''"
  by (simp add: isShellSpecialVar_def)

lemma Expand_idem:
  assumes vals: "\<And>n. CHR ''$'' \<notin> set (m n)"
  shows "Expand (Expand s m) m = Expand s m"
  using vals
proof (induction s m rule: Expand.induct)
  case (1 m)
  show ?case by simp
next
  case (2 c t m)
  show ?case
  proof (cases "c = CHR ''$'' \<and> t \<noteq> []")
    case False
    then have "Expand (c # t) m = c # Expand t m" by auto
    moreover have "Expand (c # Expand t m) m = c # Expand (Expand t m) m"
    proof (cases "c = CHR ''$''")
      case True
      with False have "t = []" by simp
      then have "Expand t m = []" by simp
      then show ?thesis by simp
    next
      case False
      then show ?thesis by simp
    qed
    ultimately show ?thesis using "2.IH"(2) [OF False] "2.prems" by simp
  next
    case True
    define nw where "nw = getShellName t"
    have ih: "Expand (Expand (drop (snd nw) t) m) m = Expand (drop (snd nw) t) m"
      using "2.IH"(1) [OF True nw_def] "2.prems" by simp
    have unfold: "Expand (c # t) m =
        (if fst nw = [] \<and> snd nw > 0 then [] else if fst nw = [] then [c] else m (fst nw))
          @ Expand (drop (snd nw) t) m"
      using True by (simp add: nw_def Let_def)
    consider (eaten) "fst nw = []" "snd nw > 0" | (kept) "fst nw = []" "snd nw = 0"
      | (name) "fst nw \<noteq> []"
      by auto
    then show ?thesis
    proof cases
      case eaten
      with unfold have "Expand (c # t) m = Expand (drop (snd nw) t) m" by simp
      with ih show ?thesis by simp
    next
      case kept
      with unfold have e: "Expand (c # t) m = c # Expand t m" by simp
      from kept have "getShellName t = ([], 0)" by (simp add: nw_def prod_eq_iff)
      with True have hd: "hd t \<noteq> CHR ''{'' \<and> \<not> isShellSpecialVar (hd t) \<and> \<not> isAlphaNum (hd t)"
        by (intro getShellName_no_name_iff) simp_all
      from True obtain x xs where t: "t = x # xs" by (cases t) auto
      with hd dollar_special have x: "x \<noteq> CHR ''$''" by auto
      with t have et: "Expand t m = x # Expand xs m" by simp
      have "getShellName (x # Expand xs m) = ([], 0)"
        using hd t by (intro getShellName_no_name) simp_all
      then have "Expand (c # x # Expand xs m) m = c # Expand (x # Expand xs m) m"
        using True by simp
      with et have "Expand (c # Expand t m) m = c # Expand (Expand t m) m" by simp
      moreover from ih kept have "Expand (Expand t m) m = Expand t m" by simp
      ultimately show ?thesis using e by simp
    next
      case name
      with unfold have e: "Expand (c # t) m = m (fst nw) @ Expand (drop (snd nw) t) m" by simp
      have "Expand (m (fst nw) @ Expand (drop (snd nw) t) m) m =
          m (fst nw) @ Expand (Expand (drop (snd nw) t) m) m"
        by (rule Expand_no_dollar_prefix) (rule "2.prems")
      with ih e show ?thesis by simp
    qed
  qed
qed

lemma ExpandEnv_idem:
  assumes "\<forall>v \<in> ran env. CHR ''$'' \<notin> set v"
  shows "ExpandEnv env (ExpandEnv env s) = ExpandEnv env s"
    and "ExpandEnv env (Getenv env k) = Getenv env k"
proof -
  have vals: "CHR ''$'' \<notin> set (Getenv env n)" for n
  proof (cases "env n")
    case None
    then show ?thesis by (simp add: Getenv_def)
  next
    case (Some v)
    then have "v \<in> ran env" by (rule ranI)
    with assms Some show ?thesis by (simp add: Getenv_def)
  qed
  show "ExpandEnv env (ExpandEnv env s) = ExpandEnv env s"
    unfolding ExpandEnv_def by (rule Expand_idem) (rule vals)
  show "ExpandEnv env (Getenv env k) = Getenv env k"
    unfolding ExpandEnv_def by (rule Expand_no_dollar) (rule vals)
qed

lemma Build_sections:
  "Build_Repository env c =
     c\<lparr>Repository := (if ExpandEnv env (Repository c) = []
                       then Getenv env ''GITHUB_REPOSITORY'' else ExpandEnv env (Repository c))\<rparr>"
  "Build_Datastore env c =
     c\<lparr>Datastore := map_option (\<lambda>d. d\<lparr>Datastore_Github := map_option (\<lambda>g.
           g\<lparr>Github_Repository := ExpandEnv env (Github_Repository g),
             Github_Branch := ExpandEnv env (Github_Branch g),
             Github_Path := ExpandEnv env (Github_Path g)\<rparr>) (Datastore_Github d)\<rparr>) (Datastore c)\<rparr>"
  "Build_Coverage env c =
     c\<lparr>Coverage := map_option (\<lambda>cov. cov\<lparr>Coverage_Badge := (Coverage_Badge cov)\<lparr>
           CoverageBadge_Path := ExpandEnv env (CoverageBadge_Path (Coverage_Badge cov))\<rparr>\<rparr>)
           (Coverage c)\<rparr>"
  "Build_CodeToTestRatio c =
     c\<lparr>CodeToTestRatio := map_option (\<lambda>ct. ct\<lparr>
           Ratio_Code := Some (case Ratio_Code ct of None \<Rightarrow> [] | Some xs \<Rightarrow> xs),
           Ratio_Test := Some (case Ratio_Test ct of None \<Rightarrow> [] | Some xs \<Rightarrow> xs)\<rparr>)
           (CodeToTestRatio c)\<rparr>"
  "Build_Central env c =
     c\<lparr>Central := map_option (\<lambda>ce. ce\<lparr>Central_Root := ExpandEnv env (Central_Root ce),
           Central_Reports := ExpandEnv env (Central_Reports ce),
           Central_Badges := ExpandEnv env (Central_Badges ce)\<rparr>) (Central c)\<rparr>"
proof -
  show "Build_Repository env c =
     c\<lparr>Repository := (if ExpandEnv env (Repository c) = []
                       then Getenv env ''GITHUB_REPOSITORY'' else ExpandEnv env (Repository c))\<rparr>"
    by (simp add: Build_Repository_def Let_def)
  show "Build_Datastore env c =
     c\<lparr>Datastore := map_option (\<lambda>d. d\<lparr>Datastore_Github := map_option (\<lambda>g.
           g\<lparr>Github_Repository := ExpandEnv env (Github_Repository g),
             Github_Branch := ExpandEnv env (Github_Branch g),
             Github_Path := ExpandEnv env (Github_Path g)\<rparr>) (Datastore_Github d)\<rparr>) (Datastore c)\<rparr>"
  proof (cases "Datastore c")
    case None
    then show ?thesis by (simp add: Build_Datastore_def)
  next
    case (Some d)
    then show ?thesis by (cases "Datastore_Github d") (simp_all add: Build_Datastore_def)
  qed
  show "Build_Coverage env c =
     c\<lparr>Coverage := map_option (\<lambda>cov. cov\<lparr>Coverage_Badge := (Coverage_Badge cov)\<lparr>
           CoverageBadge_Path := ExpandEnv env (CoverageBadge_Path (Coverage_Badge cov))\<rparr>\<rparr>)
           (Coverage c)\<rparr>"
    by (cases "Coverage c") (simp_all add: Build_Coverage_def)
  show "Build_CodeToTestRatio c =
     c\<lparr>CodeToTestRatio := map_option (\<lambda>ct. ct\<lparr>
           Ratio_Code := Some (case Ratio_Code ct of None \<Rightarrow> [] | Some xs \<Rightarrow> xs),
           Ratio_Test := Some (case Ratio_Test ct of None \<Rightarrow> [] | Some xs \<Rightarrow> xs)\<rparr>)
           (CodeToTestRatio c)\<rparr>"
    by (cases "CodeToTestRatio c") (simp_all add: Build_CodeToTestRatio_def)
  show "Build_Central env c =
     c\<lparr>Central := map_option (\<lambda>ce. ce\<lparr>Central_Root := ExpandEnv env (Central_Root ce),
           Central_Reports := ExpandEnv env (Central_Reports ce),
           Central_Badges := ExpandEnv env (Central_Badges ce)\<rparr>) (Central c)\<rparr>"
    by (cases "Central c") (simp_all add: Build_Central_def)
qed

lemma Build_idem_general:
  assumes idem: "\<And>s. ExpandEnv env (ExpandEnv env s) = ExpandEnv env s"
    and fallback: "ExpandEnv env (Getenv env ''GITHUB_REPOSITORY'') = Getenv env ''GITHUB_REPOSITORY''"
  shows "Build env (Build env c) = Build env c"
  using idem fallback
  by (simp add: Build_def Build_sections option.map_comp comp_def)

text \<open>
  C9, as stated, fails: the value of a variable is inserted without being expanded,
  so when the value of \<^verbatim>\<open>A\<close> is \<^verbatim>\<open>$B\<close> the first Build turns the repository
  \<^verbatim>\<open>$A\<close> into \<^verbatim>\<open>$B\<close> and a second Build turns it into the value of \<^verbatim>\<open>B\<close>.
\<close>

theorem Build_twice_differs:
  "Repository (Build env_nested ((New ''/w'')\<lparr>Repository := ''$A''\<rparr>)) = ''$B'' \<and>
   Repository (Build env_nested (Build env_nested ((New ''/w'')\<lparr>Repository := ''$A''\<rparr>))) = ''x'' \<and>
   Build env_nested (Build env_nested ((New ''/w'')\<lparr>Repository := ''$A''\<rparr>)) \<noteq>
     Build env_nested ((New ''/w'')\<lparr>Repository := ''$A''\<rparr>)"
proof -
  have e: "ExpandEnv env_nested ''$A'' = ''$B''" "ExpandEnv env_nested ''$B'' = ''x''"
      "ExpandEnv env_nested [] = []"
    by (simp_all add: ExpandEnv_def env_nested_def Getenv_def getShellName_def
        isShellSpecialVar_def isAlphaNum_def)
  have 1: "Repository (Build env_nested ((New ''/w'')\<lparr>Repository := ''$A''\<rparr>)) = ''$B''"
    by (simp add: Build_def Build_sections New_def e)
  have 2: "Repository (Build env_nested (Build env_nested ((New ''/w'')\<lparr>Repository := ''$A''\<rparr>))) = ''x''"
    by (simp add: Build_def Build_sections New_def e)
  from 1 2 show ?thesis by auto
qed

text \<open>
  C9, amended. For a fixed environment in which no variable's value contains a
  \<^verbatim>\<open>$\<close>, Build is idempotent: a second Build leaves every field of the
  configuration as the first one left it.
\<close>

theorem Build_idempotent:
  assumes "\<forall>v \<in> ran env. CHR ''$'' \<notin> set v"
  shows "Build env (Build env c) = Build env c"
  using ExpandEnv_idem [OF assms] by (intro Build_idem_general) simp_all

theorem Build_idempotent_witness:
  "Build env_ci (Build env_ci cfg_build) = Build env_ci cfg_build \<and>
   Build env_ci cfg_build =
     (New ''/w'')\<lparr>
        Repository := ''acme/widgets'',
        Coverage := Some \<lparr>Coverage_Path = [],
          Coverage_Badge = \<lparr>CoverageBadge_Path = ''/home/ci/coverage.svg''\<rparr>,
          Coverage_Acceptable = []\<rparr>,
        CodeToTestRatio := Some \<lparr>Ratio_Code = Some [], Ratio_Test = Some [''**/*_test.go''],
          Ratio_Badge = \<lparr>CodeToTestRatioBadge_Path = []\<rparr>\<rparr>,
        Datastore := Some \<lparr>Datastore_If = [], Datastore_Github =
          Some \<lparr>Github_Repository = ''acme/widgets'', Github_Branch = [],
                Github_Path = ''/home/ci//r.json''\<rparr>\<rparr>\<rparr>"
proof -
  have "\<forall>v \<in> ran env_ci. CHR ''$'' \<notin> set v"
    by (simp add: env_ci_def)
  then have twice: "Build env_ci (Build env_ci cfg_build) = Build env_ci cfg_build"
    by (rule Build_idempotent)
  have e: "ExpandEnv env_ci [] = []"
      "Getenv env_ci ''GITHUB_REPOSITORY'' = ''acme/widgets''"
      "ExpandEnv env_ci ''${HOME}/coverage.svg'' = ''/home/ci/coverage.svg''"
      "ExpandEnv env_ci ''$GITHUB_REPOSITORY'' = ''acme/widgets''"
      "ExpandEnv env_ci ''$HOME/$UNSET/r.json'' = ''/home/ci//r.json''"
    by (simp_all add: ExpandEnv_def env_ci_def Getenv_def getShellName_def
        isShellSpecialVar_def isAlphaNum_def)
  have once: "Build env_ci cfg_build =
     (New ''/w'')\<lparr>
        Repository := ''acme/widgets'',
        Coverage := Some \<lparr>Coverage_Path = [],
          Coverage_Badge = \<lparr>CoverageBadge_Path = ''/home/ci/coverage.svg''\<rparr>,
          Coverage_Acceptable = []\<rparr>,
        CodeToTestRatio := Some \<lparr>Ratio_Code = Some [], Ratio_Test = Some [''**/*_test.go''],
          Ratio_Badge = \<lparr>CodeToTestRatioBadge_Path = []\<rparr>\<rparr>,
        Datastore := Some \<lparr>Datastore_If = [], Datastore_Github =
          Some \<lparr>Github_Repository = ''acme/widgets'', Github_Branch = [],
                Github_Path = ''/home/ci//r.json''\<rparr>\<rparr>\<rparr>"
    by (simp add: Build_def Build_sections cfg_build_def New_def e)
  from twice once show ?thesis by (rule conjI)
qed

end
